theory Spec2Isabelle
  imports Main
begin

section \<open>Backend agnostic compile: a model of \<open>mesonbuild/mcompile.py\<close>\<close>

text \<open>
  The module reads the backend of a configured build tree from its introspection file,
  picks the native build driver, builds the driver's command line from the options
  \<open>jobs\<close>, \<open>load_average\<close>, \<open>clean\<close> and \<open>builddir\<close>, runs it and returns its exit
  status. Everything the module asks of its surroundings (file system, environment,
  search path, child process) is a field of the record \<open>world\<close>; everything it does to
  them is an \<open>event\<close> of the trace that \<open>run\<close> returns next to its result. An exception
  of the Python code is a value \<open>Inl e\<close>.
\<close>

subsection \<open>Python values the module handles\<close>

text \<open>
  A \<open>pathlib.Path\<close>: its anchor (drive and root, empty for a relative path) and the
  components below it. \<open>Path('.')\<close> has neither.
\<close>

datatype path = Path (anchor: string) (parts: "string list")

text \<open>
  The value \<open>json.load\<close> returns. An object is the list of its members; a number is kept
  as it is written, the module never looks into one.
\<close>

datatype json =
    JNull
  | JBool bool
  | JNum string
  | JStr string
  | JArr "json list"
  | JObj "(string \<times> json) list"

text \<open>What lies behind a path that is opened and handed to \<open>json.load\<close>.\<close>

datatype file_content = Unreadable | Malformed | Document json

text \<open>The exceptions that can leave the module.\<close>

datatype error =
    MesonException string
  | AssertionError string
  | KeyError string
  | TypeError
  | AttributeError
  | OSError
  | JSONDecodeError

text \<open>
  What the module does to its surroundings, in the order it does it: opening a file for
  reading, probing the search path (\<open>shutil.which\<close>), scanning a directory
  (\<open>Path.glob\<close>), \<open>mlog.log\<close>, \<open>mlog.warning\<close> and starting a child process
  (\<open>mesonlib.Popen_safe\<close>).
\<close>

datatype event =
    Open_file path
  | Which string
  | Glob path string
  | Log "string list"
  | Warning string
  | Spawn "string list"

text \<open>The \<open>argparse.Namespace\<close> that \<open>add_arguments\<close> (lines 46-74) declares.\<close>

record options =
  builddir :: path
  jobs :: int
  load_average :: int
  clean :: bool

text \<open>
  The surroundings of one call. \<open>sep\<close> is \<open>os.sep\<close>; \<open>resolve\<close> is \<open>Path.resolve\<close>
  (not strict: it answers for a missing path too); \<open>content\<close> is what opening a path and
  parsing it gives; \<open>environ\<close> is \<open>os.environ.get\<close>; \<open>which\<close> is \<open>shutil.which\<close>;
  \<open>glob\<close> is \<open>Path.glob\<close>; \<open>Popen_safe\<close> gives the return code of the finished child,
  or \<open>None\<close> when the operating system could not start it.
\<close>

record world =
  sep :: char
  exists :: "path \<Rightarrow> bool"
  is_dir :: "path \<Rightarrow> bool"
  resolve :: "path \<Rightarrow> path"
  content :: "path \<Rightarrow> file_content"
  environ :: "string \<Rightarrow> string option"
  which :: "string \<Rightarrow> string option"
  glob :: "path \<Rightarrow> string \<Rightarrow> path list"
  Popen_safe :: "string list \<Rightarrow> int option"

subsection \<open>Built-ins of Python and pathlib\<close>

text \<open>\<open>s.join(xs)\<close>\<close>

fun join :: "string \<Rightarrow> string list \<Rightarrow> string" where
  "join s [] = []"
| "join s [x] = x"
| "join s (x # y # ys) = x @ s @ join s (y # ys)"

text \<open>\<open>str(n)\<close> for an integer: decimal digits, most significant first, \<open>-\<close> before a negative one.\<close>

definition digit :: "nat \<Rightarrow> char" where
  "digit d = ''0123456789'' ! (d mod 10)"

function str_nat :: "nat \<Rightarrow> string" where
  "str_nat n = (if n < 10 then [digit n] else str_nat (n div 10) @ [digit (n mod 10)])"
  by pat_completeness auto
termination
  by (relation "measure (\<lambda>n. n)") auto

declare str_nat.simps [simp del]

definition str_int :: "int \<Rightarrow> string" where
  "str_int i = (if i < 0 then CHR ''-'' # str_nat (nat (- i)) else str_nat (nat i))"

text \<open>\<open>s.startswith(p)\<close>\<close>

definition startswith :: "string \<Rightarrow> string \<Rightarrow> bool" where
  "startswith s p = (take (length p) s = p)"

text \<open>Truth of a value that is \<open>None\<close> or a string: only a non-empty string is true.\<close>

fun truthy :: "string option \<Rightarrow> bool" where
  "truthy None = False"
| "truthy (Some s) = (s \<noteq> [])"

text \<open>\<open>p / s\<close> for a plain relative name \<open>s\<close>, and \<open>p.name\<close>.\<close>

definition truediv :: "path \<Rightarrow> string \<Rightarrow> path" where
  "truediv p s = Path (anchor p) (parts p @ [s])"

definition name :: "path \<Rightarrow> string" where
  "name p = (if parts p = [] then [] else last (parts p))"

text \<open>
  \<open>str(p)\<close>: the anchor, then the components joined by \<open>os.sep\<close>; \<open>.\<close> for the empty
  path. \<open>p.as_posix()\<close> is \<open>str(p)\<close> with every \<open>os.sep\<close> replaced by a slash.
\<close>

definition str_path :: "world \<Rightarrow> path \<Rightarrow> string" where
  "str_path w p =
     (if anchor p = [] \<and> parts p = [] then ''.''
      else anchor p @ join [sep w] (parts p))"

definition as_posix :: "world \<Rightarrow> path \<Rightarrow> string" where
  "as_posix w p = map (\<lambda>c. if c = sep w then CHR ''/'' else c) (str_path w p)"

text \<open>\<open>d[k]\<close> on a parsed object.\<close>

definition getitem :: "(string \<times> json) list \<Rightarrow> string \<Rightarrow> error + json" where
  "getitem kvs k = (case map_of kvs k of None \<Rightarrow> Inl (KeyError k) | Some v \<Rightarrow> Inr v)"

subsection \<open>\<open>get_backend_from_introspect\<close> (lines 31-44)\<close>

text \<open>
  The loop of lines 41-43 over a list. An element that is not an object cannot be
  indexed by a string (\<open>TypeError\<close>); an object without the key raises \<open>KeyError\<close>.
  \<open>None\<close> is the loop running to its end.
\<close>

fun scan_options :: "json list \<Rightarrow> (error + json) option" where
  "scan_options [] = None"
| "scan_options (JObj kvs # rest) =
     (case getitem kvs ''name'' of
        Inl e \<Rightarrow> Some (Inl e)
      | Inr n \<Rightarrow> if n = JStr ''backend'' then Some (getitem kvs ''value'')
                 else scan_options rest)"
| "scan_options (_ # rest) = Some (Inl TypeError)"

text \<open>
  What \<open>for option in schema\<close> runs over: the elements of a list, the keys of an
  object, the characters of a string; anything else is not iterable.
\<close>

fun iterate :: "json \<Rightarrow> error + json list" where
  "iterate (JArr xs) = Inr xs"
| "iterate (JObj kvs) = Inr (map (\<lambda>kv. JStr (fst kv)) kvs)"
| "iterate (JStr s) = Inr (map (\<lambda>c. JStr [c]) s)"
| "iterate _ = Inl TypeError"

definition path_to_intro :: "path \<Rightarrow> path" where
  "path_to_intro bdir = truediv (truediv bdir ''meson-info'') ''intro-buildoptions.json''"

definition get_backend_from_introspect :: "world \<Rightarrow> path \<Rightarrow> event list \<times> (error + json)" where
  "get_backend_from_introspect w bdir =
     (let p = path_to_intro bdir in
      if \<not> exists w p then
        ([], Inl (MesonException (''`'' @ name p @ ''` is missing! Directory is not configured yet?'')))
      else
        (case content w p of
           Unreadable \<Rightarrow> ([Open_file p], Inl OSError)
         | Malformed \<Rightarrow> ([Open_file p], Inl JSONDecodeError)
         | Document schema \<Rightarrow>
             (case iterate schema of
                Inl e \<Rightarrow> ([Open_file p], Inl e)
              | Inr opts \<Rightarrow>
                  (case scan_options opts of
                     Some r \<Rightarrow> ([Open_file p], r)
                   | None \<Rightarrow>
                       ([Open_file p],
                        Inl (MesonException (''`'' @ name p @ ''` is missing `backend` option!'')))))))"

subsection \<open>\<open>run\<close> (lines 77-135)\<close>

text \<open>Lines 88-93: the runner of the ninja backend, with the probes made on the way.\<close>

definition run_runner :: "world \<Rightarrow> event list \<times> string option" where
  "run_runner w =
     (let runner = environ w ''NINJA'' in
      if \<not> truthy runner then
        (if truthy (which w ''ninja'') then ([Which ''ninja''], Some ''ninja'')
         else if truthy (which w ''samu'') then ([Which ''ninja'', Which ''samu''], Some ''samu'')
         else ([Which ''ninja'', Which ''samu''], runner))
      else ([], runner))"

text \<open>Lines 99-108: the command line of the ninja backend.\<close>

definition run_ninja_cmd :: "world \<Rightarrow> options \<Rightarrow> string \<Rightarrow> string list" where
  "run_ninja_cmd w opts runner =
     [runner, ''-C'', as_posix w (builddir opts)]
     @ (if jobs opts > 0 then [''-j'', str_int (jobs opts)] else [])
     @ (if load_average opts > 0 then [''-l'', str_int (load_average opts)] else [])
     @ (if clean opts then [''clean''] else [])"

text \<open>Lines 87-108: the ninja branch up to the finished command line.\<close>

definition run_ninja :: "world \<Rightarrow> options \<Rightarrow> event list \<times> (error + string list)" where
  "run_ninja w opts =
     (case run_runner w of
        (probes, None) \<Rightarrow> (probes, Inl (MesonException ''Cannot find either ninja or samu.''))
      | (probes, Some runner) \<Rightarrow>
          (probes @ [Log [''Found runner:'', runner]], Inr (run_ninja_cmd w opts runner)))"

text \<open>Lines 115-126: the command line of the Visual Studio backends.\<close>

definition run_vs_cmd :: "world \<Rightarrow> options \<Rightarrow> path \<Rightarrow> string list" where
  "run_vs_cmd w opts sln =
     [''msbuild'', str_path w (resolve w sln)]
     @ (if jobs opts > 0 then [''-m'' @ str_int (jobs opts)] else [''-m''])
     @ (if clean opts then [''/t:Clean''] else [])"

text \<open>Lines 110-126: the Visual Studio branch up to the finished command line.\<close>

definition run_vs :: "world \<Rightarrow> options \<Rightarrow> event list \<times> (error + string list)" where
  "run_vs w opts =
     (case glob w (builddir opts) ''*.sln'' of
        [sln] \<Rightarrow>
          ([Glob (builddir opts) ''*.sln'']
           @ (if load_average opts \<noteq> 0
              then [Warning ''Msbuild does not have a load-average switch, ignoring.'']
              else []),
           Inr (run_vs_cmd w opts sln))
      | _ \<Rightarrow>
          ([Glob (builddir opts) ''*.sln''],
           Inl (AssertionError ''More than one solution in a project?'')))"

text \<open>
  Lines 87, 110, 128-131: the choice of the branch. A backend value that is not a string
  differs from \<open>'ninja'\<close> and has no \<open>startswith\<close>.
\<close>

definition run_dispatch :: "world \<Rightarrow> options \<Rightarrow> json \<Rightarrow> event list \<times> (error + string list)" where
  "run_dispatch w opts backend =
     (case backend of
        JStr b \<Rightarrow>
          if b = ''ninja'' then run_ninja w opts
          else if startswith b ''vs'' then run_vs w opts
          else ([], Inl (MesonException
                  (''Backend `'' @ b @ ''` is not yet supported by `compile`. Use generated project files directly instead.'')))
      | _ \<Rightarrow> ([], Inl AttributeError))"

text \<open>Lines 133-135: start the driver, wait for it, return its return code.\<close>

definition run_spawn :: "world \<Rightarrow> string list \<Rightarrow> event list \<times> (error + int)" where
  "run_spawn w cmd =
     ([Spawn cmd], case Popen_safe w cmd of None \<Rightarrow> Inl OSError | Some rc \<Rightarrow> Inr rc)"

definition run :: "world \<Rightarrow> options \<Rightarrow> event list \<times> (error + int)" where
  "run w opts =
     (let bdir = builddir opts in
      if \<not> exists w bdir then
        ([], Inl (MesonException
               (''Path to builddir '' @ str_path w (resolve w bdir) @ '' does not exist!'')))
      else if \<not> is_dir w bdir then
        ([], Inl (MesonException ''builddir path should be a directory.''))
      else
        (case get_backend_from_introspect w bdir of
           (t1, Inl e) \<Rightarrow> (t1, Inl e)
         | (t1, Inr backend) \<Rightarrow>
             (case run_dispatch w opts backend of
                (t2, Inl e) \<Rightarrow> (t1 @ t2, Inl e)
              | (t2, Inr cmd) \<Rightarrow>
                  (case run_spawn w cmd of (t3, r) \<Rightarrow> (t1 @ t2 @ t3, r)))))"

subsection \<open>Notions the properties are stated with\<close>

text \<open>
  A build tree that \<open>run\<close> accepts and whose introspection file gives the string \<open>b\<close> as
  the backend.
\<close>

definition configured :: "world \<Rightarrow> options \<Rightarrow> string \<Rightarrow> bool" where
  "configured w opts b \<longleftrightarrow>
     exists w (builddir opts) \<and> is_dir w (builddir opts) \<and>
     snd (get_backend_from_introspect w (builddir opts)) = Inr (JStr b)"

text \<open>The member \<open>k\<close> of an option descriptor, and a descriptor with at least a name and a value.\<close>

fun field :: "string \<Rightarrow> json \<Rightarrow> json option" where
  "field k (JObj kvs) = map_of kvs k"
| "field k _ = None"

definition descriptor :: "json \<Rightarrow> bool" where
  "descriptor d \<longleftrightarrow> field ''name'' d \<noteq> None \<and> field ''value'' d \<noteq> None"

definition named_backend :: "json \<Rightarrow> bool" where
  "named_backend d \<longleftrightarrow> field ''name'' d = Some (JStr ''backend'')"

text \<open>The outcome of \<open>run_spawn\<close>: the return code of the child, or the failure to start it.\<close>

definition exit_status :: "world \<Rightarrow> string list \<Rightarrow> error + int" where
  "exit_status w cmd = (case Popen_safe w cmd of None \<Rightarrow> Inl OSError | Some rc \<Rightarrow> Inr rc)"

text \<open>The value of a string of decimal digits.\<close>

definition digit_value :: "char \<Rightarrow> nat" where
  "digit_value c = of_char c - 48"

definition decimal :: "string \<Rightarrow> nat" where
  "decimal s = foldl (\<lambda>a c. 10 * a + digit_value c) 0 s"

subsection \<open>A build tree to run the model on\<close>

text \<open>
  A POSIX machine: the relative build directory \<open>build\<close> below \<open>/home/user/proj\<close>,
  configured for the backend \<open>b\<close>, holding the solution files \<open>slns\<close>; \<open>ninja\<close> is on the
  search path, \<open>samu\<close> is not, \<open>NINJA\<close> is not set. A child starts when its program is
  \<open>ninja\<close> or \<open>msbuild\<close>, and returns 0 unless it is asked to build with 3 jobs, which
  fails with 1.
\<close>

definition tree :: "json \<Rightarrow> path list \<Rightarrow> world" where
  "tree b slns =
     \<lparr> sep = CHR ''/'',
       exists = (\<lambda>p. p = Path [] [''build''] \<or>
                      p = Path [] [''build'', ''meson-info'', ''intro-buildoptions.json'']),
       is_dir = (\<lambda>p. p = Path [] [''build'']),
       resolve = (\<lambda>p. if anchor p = [] then Path ''/'' ([''home'', ''user'', ''proj''] @ parts p) else p),
       content = (\<lambda>p. if p = Path [] [''build'', ''meson-info'', ''intro-buildoptions.json'']
                       then Document (JArr [JObj [(''name'', JStr ''prefix''), (''value'', JStr ''/usr'')],
                                            JObj [(''name'', JStr ''backend''), (''value'', b)]])
                       else Unreadable),
       environ = (\<lambda>v. None),
       which = (\<lambda>n. if n = ''ninja'' then Some ''/usr/bin/ninja'' else None),
       glob = (\<lambda>p pat. if p = Path [] [''build''] \<and> pat = ''*.sln'' then slns else []),
       Popen_safe = (\<lambda>cmd. if cmd = [] \<or> hd cmd \<notin> {''ninja'', ''msbuild''} then None
                            else if ''3'' \<in> set cmd \<or> ''-m3'' \<in> set cmd then Some 1 else Some 0) \<rparr>"

definition request :: "int \<Rightarrow> int \<Rightarrow> bool \<Rightarrow> options" where
  "request j l c = \<lparr> builddir = Path [] [''build''], jobs = j, load_average = l, clean = c \<rparr>"

subsection \<open>Facts about the built-ins\<close>

lemma name_path_to_intro: "name (path_to_intro bdir) = ''intro-buildoptions.json''"
  by (simp add: name_def path_to_intro_def truediv_def)

lemma digit_in: "digit d \<in> set ''0123456789''"
  unfolding digit_def by (rule nth_mem) simp

lemma str_nat_digits: "set (str_nat n) \<subseteq> set ''0123456789''"
proof (induction n rule: str_nat.induct)
  case (1 n)
  show ?case
  proof (cases "n < 10")
    case True
    then show ?thesis using digit_in[of n] by (subst str_nat.simps) simp
  next
    case False
    then show ?thesis using 1 digit_in[of "n mod 10"] by (subst str_nat.simps) simp
  qed
qed

lemma str_nat_nonempty: "str_nat n \<noteq> []"
  by (subst str_nat.simps) simp

lemma digit_value_nth: "k < 10 \<Longrightarrow> digit_value (''0123456789'' ! k) = k"
proof -
  assume "k < 10"
  then have "k = 0 \<or> k = 1 \<or> k = 2 \<or> k = 3 \<or> k = 4 \<or> k = 5 \<or> k = 6 \<or> k = 7 \<or> k = 8 \<or> k = 9"
    by arith
  then show ?thesis
    by (elim disjE) (simp_all add: digit_value_def)
qed

lemma digit_value_digit: "digit_value (digit d) = d mod 10"
  by (simp add: digit_def digit_value_nth)

lemma decimal_snoc: "decimal (s @ [c]) = 10 * decimal s + digit_value c"
  by (simp add: decimal_def)

lemma decimal_str_nat: "decimal (str_nat n) = n"
proof (induction n rule: str_nat.induct)
  case (1 n)
  show ?case
  proof (cases "n < 10")
    case True
    then show ?thesis by (subst str_nat.simps) (simp add: decimal_def digit_value_digit)
  next
    case False
    then show ?thesis using 1 by (subst str_nat.simps) (simp add: decimal_snoc digit_value_digit)
  qed
qed

lemma str_int_pos:
  assumes "0 < i"
  shows "set (str_int i) \<subseteq> set ''0123456789''" and "str_int i \<noteq> []"
    and "int (decimal (str_int i)) = i"
  using assms str_nat_digits[of "nat i"] str_nat_nonempty[of "nat i"]
  by (simp_all add: str_int_def decimal_str_nat)

lemma str_int_pos_neq:
  assumes "0 < i"
  shows "str_int i \<noteq> ''-j''" and "str_int i \<noteq> ''-l''" and "str_int i \<noteq> ''clean''"
    and "CHR '' '' \<notin> set (str_int i)"
  using str_int_pos(1)[OF assms] by auto

subsection \<open>The shape of a run on a configured tree\<close>

lemma get_backend_trace:
  "snd (get_backend_from_introspect w bdir) = Inr x \<Longrightarrow>
   get_backend_from_introspect w bdir = ([Open_file (path_to_intro bdir)], Inr x)"
  by (auto simp: get_backend_from_introspect_def Let_def
           split: if_splits file_content.splits sum.splits option.splits)

lemma run_configured:
  assumes "configured w opts b"
  shows "run w opts =
    (case run_dispatch w opts (JStr b) of
       (t2, Inl e) \<Rightarrow> (Open_file (path_to_intro (builddir opts)) # t2, Inl e)
     | (t2, Inr cmd) \<Rightarrow>
         (Open_file (path_to_intro (builddir opts)) # t2 @ [Spawn cmd], exit_status w cmd))"
proof -
  from assms have e: "exists w (builddir opts)" and d: "is_dir w (builddir opts)"
    and g: "get_backend_from_introspect w (builddir opts)
            = ([Open_file (path_to_intro (builddir opts))], Inr (JStr b))"
    by (simp_all add: configured_def get_backend_trace)
  show ?thesis
    by (simp add: run_def Let_def e d g run_spawn_def exit_status_def split: prod.splits sum.splits)
qed

lemma dispatch_ninja: "run_dispatch w opts (JStr ''ninja'') = run_ninja w opts"
  by (simp add: run_dispatch_def)

lemma dispatch_vs: "startswith b ''vs'' \<Longrightarrow> run_dispatch w opts (JStr b) = run_vs w opts"
  by (auto simp: run_dispatch_def startswith_def)

subsection \<open>The command line of the ninja backend\<close>

text \<open>
  Claim C1. On a tree configured for the backend \<open>ninja\<close>, with the runner resolved, the
  command that \<open>run\<close> spawns is exactly the runner, \<open>-C\<close> and the build directory as a
  POSIX path, then \<open>-j\<close> and the decimal form of \<open>jobs\<close> exactly when \<open>jobs > 0\<close>, then
  \<open>-l\<close> and the decimal form of \<open>load_average\<close> exactly when \<open>load_average > 0\<close>, then
  the bare word \<open>clean\<close> exactly when the clean flag is set. After the three leading
  words, \<open>-j\<close>, \<open>-l\<close> and \<open>clean\<close> occur in no other case, and the decimal forms read
  back as the numbers.
\<close>

theorem ninja_argument_vector:
  assumes "configured w opts ''ninja''" and "run_runner w = (probes, Some runner)"
  shows "let cmd = [runner, ''-C'', as_posix w (builddir opts)]
                   @ (if 0 < jobs opts then [''-j'', str_int (jobs opts)] else [])
                   @ (if 0 < load_average opts then [''-l'', str_int (load_average opts)] else [])
                   @ (if clean opts then [''clean''] else [])
         in run w opts =
              (Open_file (path_to_intro (builddir opts)) # probes
                 @ [Log [''Found runner:'', runner], Spawn cmd],
               exit_status w cmd)
            \<and> (''-j'' \<in> set (drop 3 cmd) \<longleftrightarrow> 0 < jobs opts)
            \<and> (''-l'' \<in> set (drop 3 cmd) \<longleftrightarrow> 0 < load_average opts)
            \<and> (''clean'' \<in> set (drop 3 cmd) \<longleftrightarrow> clean opts)
            \<and> (0 < jobs opts \<longrightarrow> int (decimal (str_int (jobs opts))) = jobs opts)
            \<and> (0 < load_average opts \<longrightarrow>
                 int (decimal (str_int (load_average opts))) = load_average opts)"
proof -
  have r: "run w opts =
      (Open_file (path_to_intro (builddir opts)) # probes
         @ [Log [''Found runner:'', runner], Spawn (run_ninja_cmd w opts runner)],
       exit_status w (run_ninja_cmd w opts runner))"
    by (simp add: run_configured[OF assms(1)] dispatch_ninja run_ninja_def assms(2))
  show ?thesis
    unfolding Let_def r
    using str_int_pos_neq[of "jobs opts"] str_int_pos_neq[of "load_average opts"]
      str_int_pos(3)[of "jobs opts"] str_int_pos(3)[of "load_average opts"]
    by (auto simp: run_ninja_cmd_def)
qed

theorem ninja_argument_vector_witness:
  "configured (tree (JStr ''ninja'') []) (request 4 0 False) ''ninja''
   \<and> run_runner (tree (JStr ''ninja'') []) = ([Which ''ninja''], Some ''ninja'')
   \<and> run (tree (JStr ''ninja'') []) (request 4 0 False) =
       ([Open_file (Path [] [''build'', ''meson-info'', ''intro-buildoptions.json'']),
         Which ''ninja'', Log [''Found runner:'', ''ninja''],
         Spawn [''ninja'', ''-C'', ''build'', ''-j'', ''4'']],
        Inr 0)"
proof -
  have c: "configured (tree (JStr ''ninja'') []) (request 4 0 False) ''ninja''"
    by (simp add: configured_def tree_def request_def get_backend_from_introspect_def
          path_to_intro_def truediv_def getitem_def)
  have p: "run_runner (tree (JStr ''ninja'') []) = ([Which ''ninja''], Some ''ninja'')"
    by (simp add: run_runner_def tree_def)
  show ?thesis
    using c p ninja_argument_vector[OF c p]
    by (simp add: Let_def tree_def request_def path_to_intro_def truediv_def exit_status_def
          as_posix_def str_path_def str_int_def str_nat.simps digit_def)
qed

subsection \<open>More on the shape of a run\<close>

lemma dispatch_other:
  "b \<noteq> ''ninja'' \<Longrightarrow> \<not> startswith b ''vs'' \<Longrightarrow>
   run_dispatch w opts (JStr b) =
     ([], Inl (MesonException (''Backend `'' @ b @ ''` is not yet supported by `compile`. Use generated project files directly instead.'')))"
  by (simp add: run_dispatch_def)

lemma run_vs_one:
  assumes "configured w opts b" and "startswith b ''vs''"
    and "glob w (builddir opts) ''*.sln'' = [sln]"
  shows "run w opts =
     (Open_file (path_to_intro (builddir opts)) # Glob (builddir opts) ''*.sln''
        # (if load_average opts \<noteq> 0
           then [Warning ''Msbuild does not have a load-average switch, ignoring.''] else [])
        @ [Spawn (run_vs_cmd w opts sln)],
      exit_status w (run_vs_cmd w opts sln))"
  by (simp add: run_configured[OF assms(1)] dispatch_vs[OF assms(2)] run_vs_def assms(3))

lemma run_vs_not_one:
  assumes "configured w opts b" and "startswith b ''vs''"
    and "length (glob w (builddir opts) ''*.sln'') \<noteq> 1"
  shows "run w opts =
     ([Open_file (path_to_intro (builddir opts)), Glob (builddir opts) ''*.sln''],
      Inl (AssertionError ''More than one solution in a project?''))"
proof -
  have "run_vs w opts = ([Glob (builddir opts) ''*.sln''],
      Inl (AssertionError ''More than one solution in a project?''))"
    using assms(3) by (auto simp: run_vs_def split: list.splits)
  then show ?thesis
    by (simp add: run_configured[OF assms(1)] dispatch_vs[OF assms(2)])
qed

lemma configured_tree:
  "configured (tree (JStr b) slns) (request j l c) b"
  by (simp add: configured_def tree_def request_def get_backend_from_introspect_def
        path_to_intro_def truediv_def getitem_def)

lemma get_backend_no_spawn: "Spawn c \<notin> set (fst (get_backend_from_introspect w bdir))"
  by (auto simp: get_backend_from_introspect_def Let_def
           split: if_splits file_content.splits sum.splits option.splits)

lemma run_dispatch_no_spawn: "Spawn c \<notin> set (fst (run_dispatch w opts b))"
  by (auto simp: run_dispatch_def run_ninja_def run_runner_def run_vs_def Let_def
           split: json.splits if_splits option.splits list.splits prod.splits)

subsection \<open>The runner of the ninja backend\<close>

text \<open>
  Claim C2. The runner is the value of \<open>NINJA\<close> when that is set and not empty, else
  \<open>ninja\<close> when it is on the search path, else \<open>samu\<close> when it is; when none of them
  resolves the run is to fail with \<open>Cannot find either ninja or samu.\<close> The code tests
  \<open>not runner\<close> before probing and \<open>runner is None\<close> after it: with \<open>NINJA\<close> set to the
  empty string and neither tool on the search path nothing has resolved, yet the run does
  not fail there. It logs an empty runner and spawns a command whose program is the empty
  string.
\<close>

theorem empty_override_unnamed_runner:
  "run ((tree (JStr ''ninja'') [])
           \<lparr> environ := (\<lambda>v. if v = ''NINJA'' then Some [] else None), which := (\<lambda>n. None) \<rparr>)
       (request 0 0 False) =
     ([Open_file (Path [] [''build'', ''meson-info'', ''intro-buildoptions.json'']),
       Which ''ninja'', Which ''samu'', Log [''Found runner:'', []],
       Spawn [[], ''-C'', ''build'']],
      Inl OSError)"
  by (simp add: run_def Let_def tree_def request_def get_backend_from_introspect_def
        path_to_intro_def truediv_def getitem_def run_dispatch_def run_ninja_def run_runner_def
        run_ninja_cmd_def run_spawn_def as_posix_def str_path_def)

subsection \<open>The exit status\<close>

text \<open>
  Claim C4. Whenever \<open>run\<close> returns an integer, that integer is the return code of the
  child process it spawned, which is the last thing it did and the only process it
  spawned; and whenever \<open>run\<close> spawned a process, its outcome is the outcome of that
  process, unchanged.
\<close>

theorem exit_status_unchanged:
  "(run w opts = (t, Inr rc) \<longrightarrow>
      (\<exists>pre cmd. t = pre @ [Spawn cmd] \<and> Popen_safe w cmd = Some rc \<and> (\<forall>c. Spawn c \<notin> set pre)))
   \<and> (Spawn cmd \<in> set (fst (run w opts)) \<longrightarrow> snd (run w opts) = exit_status w cmd)"
proof (intro conjI impI)
  assume r: "run w opts = (t, Inr rc)"
  obtain t1 r1 where g: "get_backend_from_introspect w (builddir opts) = (t1, r1)"
    by (cases "get_backend_from_introspect w (builddir opts)")
  from r g obtain backend where r1: "r1 = Inr backend"
    by (cases r1) (auto simp: run_def Let_def split: if_splits)
  obtain t2 r2 where d: "run_dispatch w opts backend = (t2, r2)"
    by (cases "run_dispatch w opts backend")
  from r g r1 d obtain cmd where r2: "r2 = Inr cmd"
    by (cases r2) (auto simp: run_def Let_def split: if_splits)
  from r g r1 d r2 have t: "t = (t1 @ t2) @ [Spawn cmd]" and p: "Popen_safe w cmd = Some rc"
    by (auto simp: run_def Let_def run_spawn_def split: if_splits option.splits)
  have "\<forall>c. Spawn c \<notin> set (t1 @ t2)"
    using get_backend_no_spawn[of _ w "builddir opts"] run_dispatch_no_spawn[of _ w opts backend] g d
    by simp
  with t p show "\<exists>pre cmd. t = pre @ [Spawn cmd] \<and> Popen_safe w cmd = Some rc \<and> (\<forall>c. Spawn c \<notin> set pre)"
    by blast
next
  assume s: "Spawn cmd \<in> set (fst (run w opts))"
  obtain t1 r1 where g: "get_backend_from_introspect w (builddir opts) = (t1, r1)"
    by (cases "get_backend_from_introspect w (builddir opts)")
  have n1: "Spawn cmd \<notin> set t1"
    using get_backend_no_spawn[of cmd w "builddir opts"] g by simp
  from s g n1 obtain backend where r1: "r1 = Inr backend"
    by (cases r1) (auto simp: run_def Let_def split: if_splits)
  obtain t2 r2 where d: "run_dispatch w opts backend = (t2, r2)"
    by (cases "run_dispatch w opts backend")
  have n2: "Spawn cmd \<notin> set t2"
    using run_dispatch_no_spawn[of cmd w opts backend] d by simp
  from s g r1 d n1 n2 obtain cmd' where r2: "r2 = Inr cmd'"
    by (cases r2) (auto simp: run_def Let_def split: if_splits)
  from s g r1 d r2 n1 n2 have "cmd' = cmd"
    by (auto simp: run_def Let_def run_spawn_def split: if_splits)
  with g r1 d r2 s show "snd (run w opts) = exit_status w cmd"
    by (auto simp: run_def Let_def run_spawn_def exit_status_def split: if_splits)
qed

theorem exit_status_unchanged_witness:
  "run (tree (JStr ''ninja'') []) (request 3 0 False) =
     ([Open_file (Path [] [''build'', ''meson-info'', ''intro-buildoptions.json'']),
       Which ''ninja'', Log [''Found runner:'', ''ninja''],
       Spawn [''ninja'', ''-C'', ''build'', ''-j'', ''3'']],
      Inr 1)
   \<and> (\<exists>pre cmd.
        [Open_file (Path [] [''build'', ''meson-info'', ''intro-buildoptions.json'']),
         Which ''ninja'', Log [''Found runner:'', ''ninja''],
         Spawn [''ninja'', ''-C'', ''build'', ''-j'', ''3'']] = pre @ [Spawn cmd]
        \<and> Popen_safe (tree (JStr ''ninja'') []) cmd = Some 1
        \<and> (\<forall>c. Spawn c \<notin> set pre))"
proof -
  have r: "run (tree (JStr ''ninja'') []) (request 3 0 False) =
     ([Open_file (Path [] [''build'', ''meson-info'', ''intro-buildoptions.json'']),
       Which ''ninja'', Log [''Found runner:'', ''ninja''],
       Spawn [''ninja'', ''-C'', ''build'', ''-j'', ''3'']],
      Inr 1)"
    by (simp add: run_def Let_def tree_def request_def get_backend_from_introspect_def
        path_to_intro_def truediv_def getitem_def run_dispatch_def run_ninja_def run_runner_def
        run_ninja_cmd_def run_spawn_def as_posix_def str_path_def str_int_def str_nat.simps digit_def)
  show ?thesis
    using r exit_status_unchanged[of "tree (JStr ''ninja'') []" "request 3 0 False"
        "[Open_file (Path [] [''build'', ''meson-info'', ''intro-buildoptions.json'']),
          Which ''ninja'', Log [''Found runner:'', ''ninja''],
          Spawn [''ninja'', ''-C'', ''build'', ''-j'', ''3'']]" 1 "[]"]
    by blast
qed

subsection \<open>What a run does not depend on\<close>

lemma run_vs_cmd_load_average:
  "run_vs_cmd w (opts\<lparr>load_average := l\<rparr>) sln = run_vs_cmd w opts sln"
  by (simp add: run_vs_cmd_def)

lemma configured_load_average:
  "configured w (opts\<lparr>load_average := l\<rparr>) b = configured w opts b"
  by (simp add: configured_def)

lemma configured_which:
  "configured (w\<lparr>which := f\<rparr>) opts b = configured w opts b"
  by (simp add: configured_def get_backend_from_introspect_def Let_def)

subsection \<open>The parallelism flag of the Visual Studio backends\<close>

text \<open>
  Claim C3, as it is written: on a backend whose name starts with \<open>vs\<close> the command line
  ends with \<open>-m\<close> when \<open>jobs \<le> 0\<close>. It does not when the clean flag is set: the clean
  target \<open>/t:Clean\<close> comes after the parallelism flag.
\<close>

theorem vs_jobs_flag_not_last:
  "jobs (request 0 0 True) \<le> 0
   \<and> run (tree (JStr ''vs2019'') [Path [] [''build'', ''proj.sln'']]) (request 0 0 True) =
       ([Open_file (Path [] [''build'', ''meson-info'', ''intro-buildoptions.json'']),
         Glob (Path [] [''build'']) ''*.sln'',
         Spawn [''msbuild'', ''/home/user/proj/build/proj.sln'', ''-m'', ''/t:Clean'']],
        Inr 0)
   \<and> last [''msbuild'', ''/home/user/proj/build/proj.sln'', ''-m'', ''/t:Clean''] \<noteq> ''-m''"
  by (simp add: run_def Let_def tree_def request_def get_backend_from_introspect_def
        path_to_intro_def truediv_def getitem_def run_dispatch_def startswith_def run_vs_def
        run_vs_cmd_def run_spawn_def str_path_def)

text \<open>
  Claim C3, amended. With exactly one solution file, the command that \<open>run\<close> spawns is
  \<open>msbuild\<close>, the resolved solution path and then the parallelism flag as its third word:
  the bare \<open>-m\<close> when \<open>jobs \<le> 0\<close>, and \<open>-m\<close> with the decimal form of \<open>jobs\<close> attached
  when \<open>jobs > 0\<close>. The flag holds no space, and what follows \<open>-m\<close> reads back as \<open>jobs\<close>.
  The flag is the last word when the clean flag is not set; when it is set, the only word
  after the flag is \<open>/t:Clean\<close>.
\<close>

theorem vs_jobs_flag:
  assumes "configured w opts b" and "startswith b ''vs''"
    and "glob w (builddir opts) ''*.sln'' = [sln]"
  shows "let flag = (if 0 < jobs opts then ''-m'' @ str_int (jobs opts) else ''-m'');
             cmd = [''msbuild'', str_path w (resolve w sln), flag]
                   @ (if clean opts then [''/t:Clean''] else [])
         in run w opts =
              (Open_file (path_to_intro (builddir opts)) # Glob (builddir opts) ''*.sln''
                 # (if load_average opts \<noteq> 0
                    then [Warning ''Msbuild does not have a load-average switch, ignoring.'']
                    else [])
                 @ [Spawn cmd],
               exit_status w cmd)
            \<and> cmd ! 2 = flag
            \<and> (\<not> clean opts \<longrightarrow> last cmd = flag)
            \<and> (clean opts \<longrightarrow> drop 3 cmd = [''/t:Clean''])
            \<and> CHR '' '' \<notin> set flag
            \<and> (0 < jobs opts \<longrightarrow> int (decimal (drop 2 flag)) = jobs opts)"
  using run_vs_one[OF assms] str_int_pos_neq(4)[of "jobs opts"] str_int_pos(3)[of "jobs opts"]
  by (simp add: Let_def run_vs_cmd_def)

theorem vs_jobs_flag_witness:
  "configured (tree (JStr ''vs2019'') [Path [] [''build'', ''proj.sln'']]) (request 3 0 True) ''vs2019''
   \<and> startswith ''vs2019'' ''vs''
   \<and> glob (tree (JStr ''vs2019'') [Path [] [''build'', ''proj.sln'']])
        (builddir (request 3 0 True)) ''*.sln'' = [Path [] [''build'', ''proj.sln'']]
   \<and> run (tree (JStr ''vs2019'') [Path [] [''build'', ''proj.sln'']]) (request 3 0 True) =
       ([Open_file (Path [] [''build'', ''meson-info'', ''intro-buildoptions.json'']),
         Glob (Path [] [''build'']) ''*.sln'',
         Spawn [''msbuild'', ''/home/user/proj/build/proj.sln'', ''-m3'', ''/t:Clean'']],
        Inr 1)"
proof -
  have c: "configured (tree (JStr ''vs2019'') [Path [] [''build'', ''proj.sln'']]) (request 3 0 True) ''vs2019''"
    by (rule configured_tree)
  have s: "startswith ''vs2019'' ''vs''"
    by (simp add: startswith_def)
  have g: "glob (tree (JStr ''vs2019'') [Path [] [''build'', ''proj.sln'']])
        (builddir (request 3 0 True)) ''*.sln'' = [Path [] [''build'', ''proj.sln'']]"
    by (simp add: tree_def request_def)
  show ?thesis
    using c s g vs_jobs_flag[OF c s g]
    by (simp add: Let_def tree_def request_def path_to_intro_def truediv_def exit_status_def
          str_path_def str_int_def str_nat.simps digit_def)
qed

subsection \<open>Reading the backend\<close>

lemma scan_options_descriptors:
  "list_all descriptor ds \<Longrightarrow>
   scan_options ds =
     (case find named_backend ds of
        None \<Rightarrow> None
      | Some d \<Rightarrow> (case field ''value'' d of None \<Rightarrow> None | Some v \<Rightarrow> Some (Inr v)))"
proof (induction ds rule: scan_options.induct)
  case 1
  show ?case by simp
next
  case (2 kvs rest)
  then show ?case
    by (auto simp: descriptor_def named_backend_def getitem_def split: option.splits)
qed (simp_all add: descriptor_def)

lemma find_descriptor:
  "list_all descriptor ds \<Longrightarrow> find P ds = Some d \<Longrightarrow> \<exists>v. field ''value'' d = Some v"
  by (induction ds) (auto simp: descriptor_def split: if_splits)

text \<open>
  Claim C5. The file read is \<open>meson-info/intro-buildoptions.json\<close> below the build
  directory. When it does not exist, \<open>get_backend_from_introspect\<close> fails with a
  \<open>MesonException\<close> that names the file and opens nothing. When it exists and holds a
  list of option descriptors (objects with at least a \<open>name\<close> and a \<open>value\<close>), none of
  them named \<open>backend\<close>, it fails with a \<open>MesonException\<close> that names the file and the
  missing \<open>backend\<close> option; otherwise it returns the value of the first descriptor
  named \<open>backend\<close>.
\<close>

theorem backend_from_introspect:
  "path_to_intro bdir = Path (anchor bdir) (parts bdir @ [''meson-info'', ''intro-buildoptions.json''])
   \<and> (\<not> exists w (path_to_intro bdir) \<longrightarrow>
        get_backend_from_introspect w bdir =
          ([], Inl (MesonException ''`intro-buildoptions.json` is missing! Directory is not configured yet?'')))
   \<and> (exists w (path_to_intro bdir) \<and> content w (path_to_intro bdir) = Document (JArr ds)
        \<and> list_all descriptor ds \<longrightarrow>
        (find named_backend ds = None \<longrightarrow>
           get_backend_from_introspect w bdir =
             ([Open_file (path_to_intro bdir)],
              Inl (MesonException ''`intro-buildoptions.json` is missing `backend` option!'')))
        \<and> (\<forall>d. find named_backend ds = Some d \<longrightarrow>
             (\<exists>v. field ''value'' d = Some v
                  \<and> get_backend_from_introspect w bdir = ([Open_file (path_to_intro bdir)], Inr v))))"
proof (intro conjI impI allI)
  show "path_to_intro bdir = Path (anchor bdir) (parts bdir @ [''meson-info'', ''intro-buildoptions.json''])"
    by (simp add: path_to_intro_def truediv_def)
next
  assume "\<not> exists w (path_to_intro bdir)"
  then show "get_backend_from_introspect w bdir =
      ([], Inl (MesonException ''`intro-buildoptions.json` is missing! Directory is not configured yet?''))"
    by (simp add: get_backend_from_introspect_def name_path_to_intro)
next
  assume a: "exists w (path_to_intro bdir) \<and> content w (path_to_intro bdir) = Document (JArr ds)
        \<and> list_all descriptor ds"
    and n: "find named_backend ds = None"
  from a n show "get_backend_from_introspect w bdir =
      ([Open_file (path_to_intro bdir)],
       Inl (MesonException ''`intro-buildoptions.json` is missing `backend` option!''))"
    by (simp add: get_backend_from_introspect_def name_path_to_intro scan_options_descriptors)
next
  fix d
  assume a: "exists w (path_to_intro bdir) \<and> content w (path_to_intro bdir) = Document (JArr ds)
        \<and> list_all descriptor ds"
    and f: "find named_backend ds = Some d"
  from a f obtain v where v: "field ''value'' d = Some v"
    using find_descriptor by blast
  from a f v have "get_backend_from_introspect w bdir = ([Open_file (path_to_intro bdir)], Inr v)"
    by (simp add: get_backend_from_introspect_def scan_options_descriptors)
  with v show "\<exists>v. field ''value'' d = Some v
      \<and> get_backend_from_introspect w bdir = ([Open_file (path_to_intro bdir)], Inr v)"
    by blast
qed


theorem backend_from_introspect_witness:
  "\<not> exists ((tree (JStr ''ninja'') []) \<lparr> exists := (\<lambda>p. p = Path [] [''build'']) \<rparr>)
        (path_to_intro (Path [] [''build'']))
   \<and> get_backend_from_introspect
        ((tree (JStr ''ninja'') []) \<lparr> exists := (\<lambda>p. p = Path [] [''build'']) \<rparr>)
        (Path [] [''build'']) =
       ([], Inl (MesonException ''`intro-buildoptions.json` is missing! Directory is not configured yet?''))
   \<and> list_all descriptor [JObj [(''name'', JStr ''prefix''), (''value'', JStr ''/usr'')]]
   \<and> find named_backend [JObj [(''name'', JStr ''prefix''), (''value'', JStr ''/usr'')]] = None
   \<and> get_backend_from_introspect
        ((tree (JStr ''ninja'') [])
           \<lparr> content := (\<lambda>p. Document (JArr [JObj [(''name'', JStr ''prefix''), (''value'', JStr ''/usr'')]])) \<rparr>)
        (Path [] [''build'']) =
       ([Open_file (Path [] [''build'', ''meson-info'', ''intro-buildoptions.json''])],
        Inl (MesonException ''`intro-buildoptions.json` is missing `backend` option!''))
   \<and> get_backend_from_introspect (tree (JStr ''ninja'') []) (Path [] [''build'']) =
       ([Open_file (Path [] [''build'', ''meson-info'', ''intro-buildoptions.json''])],
        Inr (JStr ''ninja''))"
proof -
  let ?b = "Path [] [''build'']"
  let ?w1 = "(tree (JStr ''ninja'') []) \<lparr> exists := (\<lambda>p. p = Path [] [''build'']) \<rparr>"
  let ?ds2 = "[JObj [(''name'', JStr ''prefix''), (''value'', JStr ''/usr'')]]"
  let ?w2 = "(tree (JStr ''ninja'') []) \<lparr> content := (\<lambda>p. Document (JArr ?ds2)) \<rparr>"
  let ?ds3 = "[JObj [(''name'', JStr ''prefix''), (''value'', JStr ''/usr'')],
               JObj [(''name'', JStr ''backend''), (''value'', JStr ''ninja'')]]"
  have p: "path_to_intro ?b = Path [] [''build'', ''meson-info'', ''intro-buildoptions.json'']"
    by (simp add: path_to_intro_def truediv_def)
  have m: "\<not> exists ?w1 (path_to_intro ?b)"
    by (simp add: p)
  have d2: "list_all descriptor ?ds2" and f2: "find named_backend ?ds2 = None"
    by (simp_all add: descriptor_def named_backend_def)
  have h2: "exists ?w2 (path_to_intro ?b) \<and> content ?w2 (path_to_intro ?b) = Document (JArr ?ds2)
            \<and> list_all descriptor ?ds2"
    by (simp add: p tree_def descriptor_def)
  have h3: "exists (tree (JStr ''ninja'') []) (path_to_intro ?b)
            \<and> content (tree (JStr ''ninja'') []) (path_to_intro ?b) = Document (JArr ?ds3)
            \<and> list_all descriptor ?ds3"
    by (simp add: p tree_def descriptor_def)
  have f3: "find named_backend ?ds3 = Some (JObj [(''name'', JStr ''backend''), (''value'', JStr ''ninja'')])"
    by (simp add: named_backend_def)
  show ?thesis
    using m d2 f2 h2 h3 f3
      backend_from_introspect[of ?b ?w1 "[]"]
      backend_from_introspect[of ?b ?w2 ?ds2]
      backend_from_introspect[of ?b "tree (JStr ''ninja'') []" ?ds3]
    by (simp add: p)
qed

subsection \<open>The build directory\<close>

text \<open>
  Claim C6. When the build directory does not exist, \<open>run\<close> fails with a message that
  gives the resolved path; when it exists and is not a directory, \<open>run\<close> fails with
  another message. The two messages differ, and in both cases the trace is empty: no
  file was opened and no process was spawned.
\<close>

theorem builddir_checked_first:
  "(\<not> exists w (builddir opts) \<longrightarrow>
      run w opts =
        ([], Inl (MesonException
               (''Path to builddir '' @ str_path w (resolve w (builddir opts)) @ '' does not exist!''))))
   \<and> (exists w (builddir opts) \<and> \<not> is_dir w (builddir opts) \<longrightarrow>
        run w opts = ([], Inl (MesonException ''builddir path should be a directory.'')))
   \<and> ''Path to builddir '' @ str_path w (resolve w (builddir opts)) @ '' does not exist!''
        \<noteq> ''builddir path should be a directory.''"
  by (simp add: run_def Let_def)

theorem builddir_checked_first_witness:
  "\<not> exists ((tree (JStr ''ninja'') []) \<lparr> exists := (\<lambda>p. False) \<rparr>) (builddir (request 0 0 False))
   \<and> run ((tree (JStr ''ninja'') []) \<lparr> exists := (\<lambda>p. False) \<rparr>) (request 0 0 False) =
        ([], Inl (MesonException ''Path to builddir /home/user/proj/build does not exist!''))
   \<and> exists ((tree (JStr ''ninja'') []) \<lparr> is_dir := (\<lambda>p. False) \<rparr>) (builddir (request 0 0 False))
   \<and> \<not> is_dir ((tree (JStr ''ninja'') []) \<lparr> is_dir := (\<lambda>p. False) \<rparr>) (builddir (request 0 0 False))
   \<and> run ((tree (JStr ''ninja'') []) \<lparr> is_dir := (\<lambda>p. False) \<rparr>) (request 0 0 False) =
        ([], Inl (MesonException ''builddir path should be a directory.''))"
  using builddir_checked_first[of "(tree (JStr ''ninja'') []) \<lparr> exists := (\<lambda>p. False) \<rparr>" "request 0 0 False"]
    builddir_checked_first[of "(tree (JStr ''ninja'') []) \<lparr> is_dir := (\<lambda>p. False) \<rparr>" "request 0 0 False"]
  by (simp add: tree_def request_def str_path_def)

subsection \<open>The solution file\<close>

text \<open>
  Claim C7. On a backend whose name starts with \<open>vs\<close>: when exactly one file of the
  build directory matches \<open>*.sln\<close>, \<open>run\<close> spawns \<open>msbuild\<close> with the resolved path of
  that file as its first argument; when none or more than one matches, \<open>run\<close> fails
  with an \<open>AssertionError\<close>, which is not a \<open>MesonException\<close>, after the scan and
  without spawning anything.
\<close>

theorem one_solution_required:
  assumes "configured w opts b" and "startswith b ''vs''"
  shows "(\<forall>sln. glob w (builddir opts) ''*.sln'' = [sln] \<longrightarrow>
            run w opts =
              (Open_file (path_to_intro (builddir opts)) # Glob (builddir opts) ''*.sln''
                 # (if load_average opts \<noteq> 0
                    then [Warning ''Msbuild does not have a load-average switch, ignoring.'']
                    else [])
                 @ [Spawn (run_vs_cmd w opts sln)],
               exit_status w (run_vs_cmd w opts sln))
            \<and> take 2 (run_vs_cmd w opts sln) = [''msbuild'', str_path w (resolve w sln)])
         \<and> (length (glob w (builddir opts) ''*.sln'') \<noteq> 1 \<longrightarrow>
              run w opts =
                ([Open_file (path_to_intro (builddir opts)), Glob (builddir opts) ''*.sln''],
                 Inl (AssertionError ''More than one solution in a project?'')))"
proof (intro conjI allI impI)
  fix sln
  assume g: "glob w (builddir opts) ''*.sln'' = [sln]"
  show "run w opts =
      (Open_file (path_to_intro (builddir opts)) # Glob (builddir opts) ''*.sln''
         # (if load_average opts \<noteq> 0
            then [Warning ''Msbuild does not have a load-average switch, ignoring.'']
            else [])
         @ [Spawn (run_vs_cmd w opts sln)],
       exit_status w (run_vs_cmd w opts sln))"
    by (rule run_vs_one[OF assms g])
  show "take 2 (run_vs_cmd w opts sln) = [''msbuild'', str_path w (resolve w sln)]"
    by (simp add: run_vs_cmd_def)
next
  assume "length (glob w (builddir opts) ''*.sln'') \<noteq> 1"
  then show "run w opts =
      ([Open_file (path_to_intro (builddir opts)), Glob (builddir opts) ''*.sln''],
       Inl (AssertionError ''More than one solution in a project?''))"
    by (rule run_vs_not_one[OF assms])
qed

theorem one_solution_required_witness:
  "configured (tree (JStr ''vs2019'') [Path [] [''build'', ''proj.sln'']]) (request 0 0 False) ''vs2019''
   \<and> startswith ''vs2019'' ''vs''
   \<and> run (tree (JStr ''vs2019'') [Path [] [''build'', ''proj.sln'']]) (request 0 0 False) =
       ([Open_file (Path [] [''build'', ''meson-info'', ''intro-buildoptions.json'']),
         Glob (Path [] [''build'']) ''*.sln'',
         Spawn [''msbuild'', ''/home/user/proj/build/proj.sln'', ''-m'']],
        Inr 0)
   \<and> run (tree (JStr ''vs2019'') []) (request 0 0 False) =
       ([Open_file (Path [] [''build'', ''meson-info'', ''intro-buildoptions.json'']),
         Glob (Path [] [''build'']) ''*.sln''],
        Inl (AssertionError ''More than one solution in a project?''))
   \<and> run (tree (JStr ''vs2019'') [Path [] [''build'', ''a.sln''], Path [] [''build'', ''b.sln'']])
         (request 0 0 False) =
       ([Open_file (Path [] [''build'', ''meson-info'', ''intro-buildoptions.json'']),
         Glob (Path [] [''build'']) ''*.sln''],
        Inl (AssertionError ''More than one solution in a project?''))"
proof -
  have s: "startswith ''vs2019'' ''vs''"
    by (simp add: startswith_def)
  show ?thesis
    using s
      one_solution_required[OF configured_tree[of "''vs2019''" "[Path [] [''build'', ''proj.sln'']]" 0 0 False] s]
      one_solution_required[OF configured_tree[of "''vs2019''" "[]" 0 0 False] s]
      one_solution_required[OF configured_tree[of "''vs2019''"
          "[Path [] [''build'', ''a.sln''], Path [] [''build'', ''b.sln'']]" 0 0 False] s]
      configured_tree[of "''vs2019''" "[Path [] [''build'', ''proj.sln'']]" 0 0 False]
    by (simp add: tree_def request_def path_to_intro_def truediv_def exit_status_def
          run_vs_cmd_def str_path_def)
qed

subsection \<open>Other backends\<close>

text \<open>
  Claim C8. For a backend that is not \<open>ninja\<close> and whose name does not start with
  \<open>vs\<close>, \<open>run\<close> fails with a \<open>MesonException\<close> that names the backend and tells the user
  to use the generated project files directly. It has read the introspection file and done
  nothing else: no process was spawned.
\<close>

theorem unsupported_backend:
  assumes "configured w opts b" and "b \<noteq> ''ninja''" and "\<not> startswith b ''vs''"
  shows "run w opts =
     ([Open_file (path_to_intro (builddir opts))],
      Inl (MesonException (''Backend `'' @ b
             @ ''` is not yet supported by `compile`. Use generated project files directly instead.'')))"
  by (simp add: run_configured[OF assms(1)] dispatch_other[OF assms(2,3)])

theorem unsupported_backend_witness:
  "configured (tree (JStr ''xcode'') []) (request 0 0 False) ''xcode''
   \<and> ''xcode'' \<noteq> ''ninja'' \<and> \<not> startswith ''xcode'' ''vs''
   \<and> run (tree (JStr ''xcode'') []) (request 0 0 False) =
       ([Open_file (Path [] [''build'', ''meson-info'', ''intro-buildoptions.json''])],
        Inl (MesonException
          ''Backend `xcode` is not yet supported by `compile`. Use generated project files directly instead.''))"
proof -
  have n: "''xcode'' \<noteq> ''ninja''" and s: "\<not> startswith ''xcode'' ''vs''"
    by (simp_all add: startswith_def)
  show ?thesis
    using n s configured_tree[of "''xcode''" "[]" 0 0 False]
      unsupported_backend[OF configured_tree[of "''xcode''" "[]" 0 0 False] n s]
    by (simp add: request_def path_to_intro_def truediv_def)
qed

subsection \<open>The load average on the Visual Studio backends\<close>

text \<open>
  Claim C9. On a backend whose name starts with \<open>vs\<close>, with one solution file and a
  load average other than zero, \<open>run\<close> emits the warning that msbuild has no
  load-average switch and goes on to spawn the command, whose return code it returns;
  the command is the same for every value of the load average.
\<close>

theorem vs_load_average_ignored:
  assumes "configured w opts b" and "startswith b ''vs''"
    and "glob w (builddir opts) ''*.sln'' = [sln]" and "load_average opts \<noteq> 0"
  shows "let cmd = [''msbuild'', str_path w (resolve w sln),
                    if 0 < jobs opts then ''-m'' @ str_int (jobs opts) else ''-m'']
                   @ (if clean opts then [''/t:Clean''] else [])
         in run w opts =
              ([Open_file (path_to_intro (builddir opts)), Glob (builddir opts) ''*.sln'',
                Warning ''Msbuild does not have a load-average switch, ignoring.'',
                Spawn cmd],
               exit_status w cmd)
            \<and> (\<forall>rc. Popen_safe w cmd = Some rc \<longrightarrow> snd (run w opts) = Inr rc)
            \<and> (\<forall>l. \<exists>pre. fst (run w (opts\<lparr>load_average := l\<rparr>)) = pre @ [Spawn cmd])"
proof -
  have c: "run_vs_cmd w opts sln =
        [''msbuild'', str_path w (resolve w sln),
         if 0 < jobs opts then ''-m'' @ str_int (jobs opts) else ''-m'']
        @ (if clean opts then [''/t:Clean''] else [])"
    by (simp add: run_vs_cmd_def)
  have r: "run w opts =
      ([Open_file (path_to_intro (builddir opts)), Glob (builddir opts) ''*.sln'',
        Warning ''Msbuild does not have a load-average switch, ignoring.'',
        Spawn (run_vs_cmd w opts sln)],
       exit_status w (run_vs_cmd w opts sln))"
    using run_vs_one[OF assms(1-3)] assms(4) by simp
  have a: "\<exists>pre. fst (run w (opts\<lparr>load_average := l\<rparr>)) = pre @ [Spawn (run_vs_cmd w opts sln)]" for l
  proof -
    have "configured w (opts\<lparr>load_average := l\<rparr>) b"
      using assms(1) by (simp add: configured_load_average)
    moreover have "glob w (builddir (opts\<lparr>load_average := l\<rparr>)) ''*.sln'' = [sln]"
      using assms(3) by simp
    ultimately show ?thesis
      using run_vs_one[of w "opts\<lparr>load_average := l\<rparr>" b sln] assms(2)
      by (simp add: run_vs_cmd_load_average)
  qed
  show ?thesis
    unfolding Let_def c[symmetric] using r a by (simp add: exit_status_def)
qed

theorem vs_load_average_ignored_witness:
  "configured (tree (JStr ''vs2019'') [Path [] [''build'', ''proj.sln'']]) (request 0 2 False) ''vs2019''
   \<and> startswith ''vs2019'' ''vs''
   \<and> glob (tree (JStr ''vs2019'') [Path [] [''build'', ''proj.sln'']])
        (builddir (request 0 2 False)) ''*.sln'' = [Path [] [''build'', ''proj.sln'']]
   \<and> load_average (request 0 2 False) \<noteq> 0
   \<and> run (tree (JStr ''vs2019'') [Path [] [''build'', ''proj.sln'']]) (request 0 2 False) =
       ([Open_file (Path [] [''build'', ''meson-info'', ''intro-buildoptions.json'']),
         Glob (Path [] [''build'']) ''*.sln'',
         Warning ''Msbuild does not have a load-average switch, ignoring.'',
         Spawn [''msbuild'', ''/home/user/proj/build/proj.sln'', ''-m'']],
        Inr 0)"
proof -
  have c: "configured (tree (JStr ''vs2019'') [Path [] [''build'', ''proj.sln'']]) (request 0 2 False) ''vs2019''"
    by (rule configured_tree)
  have s: "startswith ''vs2019'' ''vs''"
    by (simp add: startswith_def)
  have g: "glob (tree (JStr ''vs2019'') [Path [] [''build'', ''proj.sln'']])
        (builddir (request 0 2 False)) ''*.sln'' = [Path [] [''build'', ''proj.sln'']]"
    by (simp add: tree_def request_def)
  have l: "load_average (request 0 2 False) \<noteq> 0"
    by (simp add: request_def)
  have "run (tree (JStr ''vs2019'') [Path [] [''build'', ''proj.sln'']]) (request 0 2 False) =
       ([Open_file (Path [] [''build'', ''meson-info'', ''intro-buildoptions.json'']),
         Glob (Path [] [''build'']) ''*.sln'',
         Warning ''Msbuild does not have a load-average switch, ignoring.'',
         Spawn [''msbuild'', ''/home/user/proj/build/proj.sln'', ''-m'']],
        Inr 0)"
    using vs_load_average_ignored[OF c s g l]
    by (simp add: Let_def tree_def request_def path_to_intro_def truediv_def exit_status_def
          str_path_def)
  with c s g l show ?thesis by blast
qed

subsection \<open>The override of the runner\<close>

text \<open>
  Claim C10. On the ninja backend with \<open>NINJA\<close> set to a non-empty string, that string
  is the runner: \<open>run\<close> probes the search path for nothing, behaves the same whatever
  is on the search path, never fails with \<open>Cannot find either ninja or samu.\<close>, and a
  runner that cannot be started shows only as the failure of the spawn.
\<close>

theorem ninja_override_unchecked:
  assumes "configured w opts ''ninja''" and "environ w ''NINJA'' = Some r" and "r \<noteq> []"
  shows "let cmd = [r, ''-C'', as_posix w (builddir opts)]
                   @ (if 0 < jobs opts then [''-j'', str_int (jobs opts)] else [])
                   @ (if 0 < load_average opts then [''-l'', str_int (load_average opts)] else [])
                   @ (if clean opts then [''clean''] else [])
         in run w opts =
              ([Open_file (path_to_intro (builddir opts)), Log [''Found runner:'', r], Spawn cmd],
               exit_status w cmd)
            \<and> (\<forall>n. Which n \<notin> set (fst (run w opts)))
            \<and> (\<forall>f. run (w\<lparr>which := f\<rparr>) opts = run w opts)
            \<and> snd (run w opts) \<noteq> Inl (MesonException ''Cannot find either ninja or samu.'')
            \<and> (Popen_safe w cmd = None \<longrightarrow> snd (run w opts) = Inl OSError)"
proof -
  have rr: "run_runner w' = ([], Some r)" if "environ w' ''NINJA'' = Some r" for w'
    using that assms(3) by (simp add: run_runner_def)
  have run: "run w' opts =
      ([Open_file (path_to_intro (builddir opts)), Log [''Found runner:'', r],
        Spawn (run_ninja_cmd w' opts r)],
       exit_status w' (run_ninja_cmd w' opts r))"
    if "configured w' opts ''ninja''" and "environ w' ''NINJA'' = Some r" for w'
    by (simp add: run_configured[OF that(1)] dispatch_ninja run_ninja_def rr[OF that(2)])
  have same: "run (w\<lparr>which := f\<rparr>) opts = run w opts" for f
    using run[of "w\<lparr>which := f\<rparr>"] run[of w] assms(1,2)
    by (simp add: configured_which run_ninja_cmd_def as_posix_def str_path_def exit_status_def)
  show ?thesis
    unfolding Let_def using run[OF assms(1,2)] same
    by (simp add: run_ninja_cmd_def exit_status_def split: option.splits)
qed

theorem ninja_override_unchecked_witness:
  "configured ((tree (JStr ''ninja'') [])
       \<lparr> environ := (\<lambda>v. if v = ''NINJA'' then Some ''custom-runner'' else None) \<rparr>)
     (request 0 0 False) ''ninja''
   \<and> which ((tree (JStr ''ninja'') [])
       \<lparr> environ := (\<lambda>v. if v = ''NINJA'' then Some ''custom-runner'' else None) \<rparr>) ''ninja''
       = Some ''/usr/bin/ninja''
   \<and> run ((tree (JStr ''ninja'') [])
       \<lparr> environ := (\<lambda>v. if v = ''NINJA'' then Some ''custom-runner'' else None) \<rparr>)
     (request 0 0 False) =
       ([Open_file (Path [] [''build'', ''meson-info'', ''intro-buildoptions.json'']),
         Log [''Found runner:'', ''custom-runner''],
         Spawn [''custom-runner'', ''-C'', ''build'']],
        Inl OSError)"
proof -
  let ?w = "(tree (JStr ''ninja'') [])
       \<lparr> environ := (\<lambda>v. if v = ''NINJA'' then Some ''custom-runner'' else None) \<rparr>"
  have c: "configured ?w (request 0 0 False) ''ninja''"
    by (simp add: configured_def tree_def request_def get_backend_from_introspect_def
          path_to_intro_def truediv_def getitem_def)
  have e: "environ ?w ''NINJA'' = Some ''custom-runner''"
    by simp
  have n: "''custom-runner'' \<noteq> []"
    by simp
  show ?thesis
    using c ninja_override_unchecked[OF c e n]
    by (simp add: Let_def tree_def request_def path_to_intro_def truediv_def exit_status_def
          as_posix_def str_path_def)
qed

end
